theory Spec2Isabelle
  imports Complex_Main
begin

section \<open>SeqViewerContainer: selection, central index and layout parameters\<close>

text \<open>
  A shallow embedding of \<^verbatim>\<open>src/SeqViewerContainer.tsx\<close>: the selection resolver and setter,
  the central-index setter, and the two layout calculators \<^verbatim>\<open>linearProps\<close> and
  \<^verbatim>\<open>circularProps\<close>.

  Numbers. A JavaScript \<^verbatim>\<open>number\<close> is modelled as a real: the non-finite values (NaN
  and the infinities) and the negative zero do not exist. Where the source divides by a
  value that can be zero, the model says what it does there (see \<^verbatim>\<open>linearProps\<close> and
  \<^verbatim>\<open>circularProps\<close> below). In \<open>linearProps\<close> and \<open>circularProps\<close> the arithmetic is exact;
  \<open>linearProps_ieee\<close> is \<^verbatim>\<open>linearProps\<close> again with every arithmetic result rounded to the
  nearest double, as JavaScript computes it.
\<close>

type_synonym number = real

subsection \<open>The operators of JavaScript the source uses\<close>

text \<open>\<^verbatim>\<open>Math.round(x)\<close>: the nearest integer, a tie going up (towards plus infinity).\<close>

definition Math_round :: "number \<Rightarrow> number" where
  "Math_round x = of_int \<lfloor>x + 1 / 2\<rfloor>"

text \<open>\<^verbatim>\<open>a || b\<close> on numbers: \<open>b\<close> when \<open>a\<close> is falsy, which for a real is \<open>a = 0\<close>.\<close>

definition js_or :: "number \<Rightarrow> number \<Rightarrow> number" where
  "js_or a b = (if a = 0 then b else a)"

subsection \<open>Data\<close>

text \<open>
  Modelled from the spec: the type \<^verbatim>\<open>Selection\<close> is declared in
  \<^verbatim>\<open>selectionContext\<close>, which is not among the sources. The spec gives it as
  \<^verbatim>\<open>{ start, end, clockwise, type, ref?, parent? }\<close>, the last two opaque. The first four
  fields are a record of their own: they are what \<^verbatim>\<open>const { parent, ref, ...rest }\<close> leaves
  in \<^verbatim>\<open>rest\<close>. (\<^verbatim>\<open>end\<close> and \<^verbatim>\<open>type\<close> are written \<open>end'\<close> and \<open>type'\<close>.)
\<close>

record Selection_rest =
  start :: number
  end' :: number
  clockwise :: bool
  type' :: string

record ('r, 'p) Selection = Selection_rest +
  ref :: "'r option"
  parent :: "'p option"

text \<open>
  The \<^verbatim>\<open>selection\<close> prop, \<^verbatim>\<open>{ clockwise?: boolean; end: number; start: number }\<close>:
  \<open>None\<close> in \<open>prop_clockwise\<close> is the absent (\<^verbatim>\<open>undefined\<close>) field.
\<close>

record Selection_prop =
  prop_clockwise :: "bool option"
  prop_end :: number
  prop_start :: number

text \<open>
  Modelled from the spec: \<^verbatim>\<open>defaultSelection\<close> is declared in \<^verbatim>\<open>selectionContext\<close>, not
  among the sources; the spec only says that a default, empty selection is the rest state.
\<close>

definition defaultSelection :: "('r, 'p) Selection" where
  "defaultSelection =
     \<lparr>start = 0, end' = 0, clockwise = True, type' = '''', ref = None, parent = None\<rparr>"

text \<open>\<^verbatim>\<open>{ height: number; width: number }\<close>, the viewport size.\<close>

record Size =
  height :: number
  width :: number

text \<open>\<^verbatim>\<open>viewer: "linear" | "circular" | "both" | "both_flip"\<close>.\<close>

datatype Viewer = Linear | Circular | Both | Both_flip

text \<open>\<^verbatim>\<open>viewer.includes("both")\<close>: of the four strings, the last two contain \<^verbatim>\<open>both\<close>.\<close>

fun includes_both :: "Viewer \<Rightarrow> bool" where
  "includes_both Linear = False"
| "includes_both Circular = False"
| "includes_both Both = True"
| "includes_both Both_flip = True"

text \<open>
  Modelled from the spec: \<^verbatim>\<open>SeqType\<close> is declared in \<^verbatim>\<open>elements\<close>, not among the
  sources; the spec gives \<^verbatim>\<open>dna | rna | aa\<close>. The source only compares it with \<^verbatim>\<open>"aa"\<close>.
\<close>

datatype SeqType = dna | rna | aa

text \<open>\<^verbatim>\<open>zoom: { circular: number; linear: number }\<close>.\<close>

record Zoom =
  zoom_circular :: number
  zoom_linear :: number

text \<open>
  The props the modelled functions read. \<open>props_selection\<close>, \<open>props_height\<close> and
  \<open>props_width\<close> are the props \<^verbatim>\<open>selection\<close>, \<^verbatim>\<open>height\<close> and \<^verbatim>\<open>width\<close>.
  \<open>onSelection\<close> says whether the callback is supplied: the interface requires it, and
  \<^verbatim>\<open>setSelection\<close> tests it before the call.
\<close>

record SeqViewerContainerProps =
  props_height :: number
  onSelection :: bool
  props_selection :: "Selection_prop option"
  seq :: string
  seqType :: SeqType
  testSize :: "Size option"
  viewer :: Viewer
  props_width :: number
  zoom :: Zoom

text \<open>
  \<^verbatim>\<open>state.centralIndex\<close>, without its field \<^verbatim>\<open>setCentralIndex\<close> (the setter itself).
\<close>

record CentralIndex =
  circular_index :: number
  linear_index :: number

record ('r, 'p) SeqViewerContainerState =
  centralIndex :: CentralIndex
  selection :: "('r, 'p) Selection"

text \<open>
  The component: its props, its state, and what its methods do to the outside, written
  down as they happen: \<open>setState_calls\<close> counts the calls of \<^verbatim>\<open>this.setState\<close>, and
  \<open>onSelection_calls\<close> lists the arguments \<^verbatim>\<open>this.props.onSelection\<close> was called with,
  the latest last.

  React does not write \<^verbatim>\<open>this.state\<close> when \<^verbatim>\<open>setState\<close> is called: it queues the update
  and writes \<^verbatim>\<open>this.state\<close> when it next applies its queue. The component therefore holds
  two states: \<open>this_state\<close> is \<^verbatim>\<open>this.state\<close> as the methods read it, and \<open>state\<close> is the
  state the \<^verbatim>\<open>setState\<close> calls made so far lead to (each call merges its object into
  it). \<open>flush\<close> is React applying the queue; when it does so is not the component's to
  say.
\<close>

record ('r, 'p) SeqViewerContainer =
  props :: SeqViewerContainerProps
  state :: "('r, 'p) SeqViewerContainerState"
  this_state :: "('r, 'p) SeqViewerContainerState"
  setState_calls :: nat
  onSelection_calls :: "Selection_rest list"


subsection \<open>Selection\<close>

text \<open>
  \<^verbatim>\<open>getSelection(state, prop?)\<close>. With a prop it returns
  \<^verbatim>\<open>{ ...prop, clockwise: typeof prop.clockwise === "undefined" || !!prop.clockwise, type: "" }\<close>,
  an object with no \<^verbatim>\<open>ref\<close> and no \<^verbatim>\<open>parent\<close>; without one, \<^verbatim>\<open>state\<close>.
\<close>

definition getSelection ::
  "('r, 'p) Selection \<Rightarrow> Selection_prop option \<Rightarrow> ('r, 'p) Selection" where
  "getSelection st prop =
     (case prop of
        Some pr \<Rightarrow>
          \<lparr>start = prop_start pr, end' = prop_end pr,
           clockwise = (case prop_clockwise pr of None \<Rightarrow> True | Some b \<Rightarrow> b),
           type' = '''', ref = None, parent = None\<rparr>
      | None \<Rightarrow> st)"

text \<open>
  \<^verbatim>\<open>setSelection(selection)\<close>: \<^verbatim>\<open>rest\<close> is the selection without \<^verbatim>\<open>parent\<close> and
  \<^verbatim>\<open>ref\<close>; \<^verbatim>\<open>setState({ selection })\<close> is called when no \<^verbatim>\<open>selection\<close> prop is there, and
  then the callback, when there is one, is called with \<^verbatim>\<open>rest\<close>. The method does not read
  \<^verbatim>\<open>this.state\<close>.
\<close>

definition setSelection ::
  "('r, 'p) Selection \<Rightarrow> ('r, 'p) SeqViewerContainer \<Rightarrow> ('r, 'p) SeqViewerContainer" where
  "setSelection sel c =
     (let rest = Selection_rest.truncate sel;
          c1 = (if props_selection (props c) = None
                then c\<lparr>state := (state c)\<lparr>selection := sel\<rparr>,
                       setState_calls := Suc (setState_calls c)\<rparr>
                else c);
          c2 = (if onSelection (props c1)
                then c1\<lparr>onSelection_calls := onSelection_calls c1 @ [rest]\<rparr>
                else c1)
      in c2)"

text \<open>
  The constructor: both central indices 0, the selection resolved from
  \<^verbatim>\<open>defaultSelection\<close> and the \<^verbatim>\<open>selection\<close> prop; nothing has been called yet, and no
  update is queued.
\<close>

definition constructor :: "SeqViewerContainerProps \<Rightarrow> ('r, 'p) SeqViewerContainer" where
  "constructor p =
     \<lparr>props = p,
      state = \<lparr>centralIndex = \<lparr>circular_index = 0, linear_index = 0\<rparr>,
               selection = getSelection defaultSelection (props_selection p)\<rparr>,
      this_state = \<lparr>centralIndex = \<lparr>circular_index = 0, linear_index = 0\<rparr>,
                    selection = getSelection defaultSelection (props_selection p)\<rparr>,
      setState_calls = 0,
      onSelection_calls = []\<rparr>"

subsection \<open>Central index\<close>

text \<open>\<^verbatim>\<open>throw new Error(message)\<close>: the exception, as a value.\<close>

datatype error = Error string

text \<open>
  \<^verbatim>\<open>centralIndex[type.toLowerCase()]\<close> and
  \<^verbatim>\<open>{ ...centralIndex, [type.toLowerCase()]: value }\<close>, for the two tokens that pass the
  test of \<^verbatim>\<open>setCentralIndex\<close>: \<^verbatim>\<open>"LINEAR"\<close> names the field \<^verbatim>\<open>linear\<close>,
  \<^verbatim>\<open>"CIRCULAR"\<close> the field \<^verbatim>\<open>circular\<close>.
\<close>

definition centralIndex_at :: "string \<Rightarrow> CentralIndex \<Rightarrow> number" where
  "centralIndex_at type ci =
     (if type = ''LINEAR'' then linear_index ci else circular_index ci)"

definition centralIndex_with :: "string \<Rightarrow> number \<Rightarrow> CentralIndex \<Rightarrow> CentralIndex" where
  "centralIndex_with type value ci =
     (if type = ''LINEAR'' then ci\<lparr>linear_index := value\<rparr> else ci\<lparr>circular_index := value\<rparr>)"

text \<open>
  \<^verbatim>\<open>setCentralIndex(type, value)\<close>. The result is what the call gives its caller
  (\<open>Inl\<close> the exception thrown, \<open>Inr ()\<close> a return) and the component afterwards. Both
  the test and the copied object \<^verbatim>\<open>...this.state.centralIndex\<close> read \<^verbatim>\<open>this.state\<close>, that is
  \<open>this_state\<close>; \<^verbatim>\<open>setState({ centralIndex: ... })\<close> puts the new object into \<open>state\<close>.
\<close>

definition setCentralIndex ::
  "string \<Rightarrow> number \<Rightarrow> ('r, 'p) SeqViewerContainer
     \<Rightarrow> (error + unit) \<times> ('r, 'p) SeqViewerContainer" where
  "setCentralIndex type value c =
     (if type \<noteq> ''LINEAR'' \<and> type \<noteq> ''CIRCULAR''
      then (Inl (Error (''Unknown central index type: '' @ type)), c)
      else if centralIndex_at type (centralIndex (this_state c)) = value
      then (Inr (), c)
      else (Inr (),
            c\<lparr>state := (state c)\<lparr>centralIndex :=
                          centralIndex_with type value (centralIndex (this_state c))\<rparr>,
              setState_calls := Suc (setState_calls c)\<rparr>))"

subsection \<open>Layout parameters\<close>

text \<open>
  What \<^verbatim>\<open>linearProps\<close> and \<^verbatim>\<open>circularProps\<close> return, without the props they copy
  (\<^verbatim>\<open>...this.props\<close>). \<open>linear_size\<close> and \<open>circular_size\<close> are the field \<^verbatim>\<open>size\<close>,
  \<open>linear_zoom\<close> and \<open>circular_zoom\<close> the fields \<^verbatim>\<open>zoom.linear\<close> and \<^verbatim>\<open>zoom.circular\<close>,
  \<open>center_x\<close> and \<open>center_y\<close> the fields \<^verbatim>\<open>center.x\<close> and \<^verbatim>\<open>center.y\<close>. \<^verbatim>\<open>size\<close> is given
  by value, as it is when the function returns.
\<close>

record LinearProps =
  bpsPerBlock :: number
  charWidth :: number
  elementHeight :: number
  lineHeight :: number
  seqFontSize :: number
  linear_size :: Size
  linear_zoom :: number

record CircularProps =
  bpsOnArc :: number
  center_x :: number
  center_y :: number
  radius :: number
  circular_size :: Size
  yDiff :: number
  circular_zoom :: number

text \<open>
  \<^verbatim>\<open>const size = this.props.testSize || { height: this.props.height, width: this.props.width }\<close>:
  with a \<^verbatim>\<open>testSize\<close>, \<^verbatim>\<open>size\<close> is that very object, and the assignments to
  \<^verbatim>\<open>size.width\<close> that follow write into the props; without one, \<^verbatim>\<open>size\<close> is a new object.
  \<open>size_of\<close> reads the object \<^verbatim>\<open>size\<close> names, and \<open>write_size\<close> gives the props after the
  writes: the \<^verbatim>\<open>testSize\<close>, when there is one, holds the last value of \<^verbatim>\<open>size\<close>.
\<close>

definition size_of :: "SeqViewerContainerProps \<Rightarrow> Size" where
  "size_of p =
     (case testSize p of
        Some s \<Rightarrow> s
      | None \<Rightarrow> \<lparr>height = props_height p, width = props_width p\<rparr>)"

definition write_size :: "Size \<Rightarrow> SeqViewerContainerProps \<Rightarrow> SeqViewerContainerProps" where
  "write_size s p = (case testSize p of Some _ \<Rightarrow> p\<lparr>testSize := Some s\<rparr> | None \<Rightarrow> p)"

text \<open>
  \<^verbatim>\<open>linearProps()\<close>, as the layout parameters and the props afterwards. The successive
  values of \<^verbatim>\<open>size\<close> and \<^verbatim>\<open>bpsPerBlock\<close> are numbered.

  \<open>None\<close>: \<^verbatim>\<open>seqFontSize\<close> is 0 (a \<^verbatim>\<open>zoom.linear\<close> from -100 to below -90), where
  \<^verbatim>\<open>size.width / seqFontSize\<close> is an infinity or NaN in JavaScript, which a real cannot
  be. No other divisor of the function can be 0: \<^verbatim>\<open>zoom\<close> is above 70 where it divides,
  and \<^verbatim>\<open>bpsPerBlock\<close> is at least 1.
\<close>

definition linearProps ::
  "SeqViewerContainerProps \<Rightarrow> (LinearProps \<times> SeqViewerContainerProps) option" where
  "linearProps p =
     (let size0 = size_of p;
          zoom_l = zoom_linear (zoom p);
          size1 = (if includes_both (viewer p) then size0\<lparr>width := width size0 / 2\<rparr> else size0);
          fontSize = min (Math_round (zoom_l * 0.1 + 9.5)) 18
      in if fontSize = 0 then None
         else
           (let bps0 = js_or (Math_round ((width size1 / fontSize) * 1.4)) 1;
                bps1 = (if seqType p = aa then Math_round (bps0 / 3) else bps0);
                bps2 = (if zoom_l \<le> 5 then bps1 * 3
                        else if zoom_l \<le> 10 then bps1 * 2
                        else if zoom_l > 70 then Math_round (bps1 * (70 / zoom_l))
                        else bps1);
                bps3 = max 1 bps2;
                size2 = (if width size1 \<noteq> 0 \<and> bps3 < real (length (seq p))
                         then size1\<lparr>width := width size1 - 28\<rparr> else size1);
                cw = width size2 / bps3;
                lh = 1.4 * fontSize;
                eh = 16
            in Some (\<lparr>bpsPerBlock = bps3, charWidth = cw, elementHeight = eh,
                       lineHeight = lh, seqFontSize = fontSize, linear_size = size2,
                       linear_zoom = zoom_l\<rparr>,
                     write_size size2 p)))"

text \<open>
  \<^verbatim>\<open>circularProps()\<close>, as the layout parameters and the props afterwards.
  \<^verbatim>\<open>Math.exp\<close>, \<^verbatim>\<open>Math.log\<close> and \<^verbatim>\<open>**\<close> are the real exponential, natural logarithm
  and power. For an empty sequence \<^verbatim>\<open>50 / seqLength\<close> is plus infinity in JavaScript, its
  logarithm plus infinity, the quotient by the negative power minus infinity and
  \<^verbatim>\<open>beta\<close> the exponential of that, 0: the model gives that value.
\<close>

definition circularProps ::
  "SeqViewerContainerProps \<Rightarrow> CircularProps \<times> SeqViewerContainerProps" where
  "circularProps p =
     (let seqLength = real (length (seq p));
          size0 = size_of p;
          zoom_c = zoom_circular (zoom p);
          size1 = (if includes_both (viewer p) then size0\<lparr>width := width size0 / 2\<rparr> else size0);
          limitingDim = min (height size1) (width size1);
          ex = 0.83;
          beta = (if seqLength = 0 then 0
                  else exp (ln (50 / seqLength) / - (100 powr ex)));
          arc = seqLength * beta;
          r = limitingDim * 0.34
      in (\<lparr>bpsOnArc = arc, center_x = width size1 / 2, center_y = height size1 / 2,
           radius = (if r = 0 then 1 else r), circular_size = size1, yDiff = 0,
           circular_zoom = zoom_c\<rparr>,
          write_size size1 p))"

subsection \<open>The arithmetic of doubles\<close>

text \<open>
  The nearest integer, a tie going to the even one: the rounding of the significand.
\<close>

definition round_even :: "real \<Rightarrow> int" where
  "round_even x =
     (let n = \<lfloor>x\<rfloor>; d = x - of_int n
      in if d < 1 / 2 then n else if 1 / 2 < d then n + 1 else if even n then n else n + 1)"

text \<open>
  The double nearest to a real, a tie going to the even significand (the rounding of every
  arithmetic operation of JavaScript): 53 significant bits, the exponent not below -1022
  (the subnormal numbers). It is the IEEE result for a real below \<open>2 ^ 1024 - 2 ^ 970\<close> in
  magnitude; beyond, JavaScript gives an infinity.
\<close>

definition double :: "real \<Rightarrow> real" where
  "double x =
     (if x = 0 then 0
      else (let e = max (- 1022) \<lfloor>log 2 \<bar>x\<bar>\<rfloor>;
                u = 2 powr (of_int e - 52)
            in of_int (round_even (x / u)) * u))"

text \<open>
  \<^verbatim>\<open>linearProps()\<close> in the arithmetic of doubles: the function of the source once more, each
  product, quotient, sum and difference rounded by \<open>double\<close>, and the literals
  \<^verbatim>\<open>0.1\<close> and \<^verbatim>\<open>1.4\<close> the doubles nearest to them (the other literals are doubles).
  \<^verbatim>\<open>Math.round\<close>, \<^verbatim>\<open>Math.min\<close>, \<^verbatim>\<open>Math.max\<close> and the comparisons are exact in JavaScript.

  \<open>None\<close>: \<^verbatim>\<open>seqFontSize\<close> is 0, or the width is above \<open>2 ^ 1000\<close> in magnitude; there
  JavaScript gives or may give an infinity or NaN, which the model does not have. For a
  smaller width no result of the function leaves the range of the doubles.
\<close>

definition linearProps_ieee ::
  "SeqViewerContainerProps \<Rightarrow> (LinearProps \<times> SeqViewerContainerProps) option" where
  "linearProps_ieee p =
     (let size0 = size_of p;
          zoom_l = zoom_linear (zoom p);
          size1 = (if includes_both (viewer p)
                   then size0\<lparr>width := double (width size0 / 2)\<rparr> else size0);
          fontSize = min (Math_round (double (double (zoom_l * double 0.1) + 9.5))) 18
      in if fontSize = 0 \<or> 2 ^ 1000 < \<bar>width size0\<bar> then None
         else
           (let bps0 = js_or (Math_round (double (double (width size1 / fontSize) * double 1.4))) 1;
                bps1 = (if seqType p = aa then Math_round (double (bps0 / 3)) else bps0);
                bps2 = (if zoom_l \<le> 5 then double (bps1 * 3)
                        else if zoom_l \<le> 10 then double (bps1 * 2)
                        else if zoom_l > 70
                        then Math_round (double (bps1 * double (70 / zoom_l)))
                        else bps1);
                bps3 = max 1 bps2;
                size2 = (if width size1 \<noteq> 0 \<and> bps3 < real (length (seq p))
                         then size1\<lparr>width := double (width size1 - 28)\<rparr> else size1);
                cw = double (width size2 / bps3);
                lh = double (double 1.4 * fontSize);
                eh = 16
            in Some (\<lparr>bpsPerBlock = bps3, charWidth = cw, elementHeight = eh,
                       lineHeight = lh, seqFontSize = fontSize, linear_size = size2,
                       linear_zoom = zoom_l\<rparr>,
                     write_size size2 p)))"

text \<open>
  The words of claim C8, for comparison with the source: the steps as the claim gives them,
  with no rounding after the division by 3 and after the scaling by \<^verbatim>\<open>70 / zoom\<close>, and the
  base with minimum 1.
\<close>

definition claimed_bpsPerBlock :: "SeqViewerContainerProps \<Rightarrow> number" where
  "claimed_bpsPerBlock p =
     (let z = zoom_linear (zoom p);
          w = (if includes_both (viewer p) then width (size_of p) / 2 else width (size_of p));
          f = min (Math_round (z * 0.1 + 9.5)) 18;
          b0 = max 1 (Math_round ((w / f) * 1.4));
          b1 = (if seqType p = aa then b0 / 3 else b0);
          b2 = (if z \<le> 5 then b1 * 3
                else if z \<le> 10 then b1 * 2
                else if 70 < z then b1 * (70 / z)
                else b1)
      in max 1 b2)"

subsection \<open>An example input\<close>

text \<open>
  The props of the examples: a dna sequence of 10000 bases in a viewport 800 wide and 400
  high, viewer \<^verbatim>\<open>linear\<close>, both zooms 50, no \<^verbatim>\<open>selection\<close> prop, no \<^verbatim>\<open>testSize\<close>.
\<close>

definition example_props :: SeqViewerContainerProps where
  "example_props =
     \<lparr>props_height = 400, onSelection = True, props_selection = None,
      seq = replicate 10000 (CHR ''A''), seqType = dna, testSize = None, viewer = Linear,
      props_width = 800, zoom = \<lparr>zoom_circular = 50, zoom_linear = 50\<rparr>\<rparr>"

section \<open>Properties\<close>

subsection \<open>Rounding\<close>

lemma Math_round_mono: "x \<le> y \<Longrightarrow> Math_round x \<le> Math_round y"
  by (simp add: Math_round_def floor_mono)

lemma fontSize_lower:
  assumes "0 \<le> z"
  shows "10 \<le> min (Math_round (z * 0.1 + 9.5)) 18"
proof -
  have "Math_round 9.5 \<le> Math_round (z * 0.1 + 9.5)"
    using assms by (intro Math_round_mono) simp
  moreover have "Math_round 9.5 = 10"
    by (simp add: Math_round_def)
  ultimately show ?thesis by simp
qed

lemma js_or_of_int:
  fixes n :: int
  assumes "0 \<le> n"
  shows "js_or (of_int n) 1 = max 1 (of_int n)"
proof (cases "n = 0")
  case True
  then show ?thesis
    by (simp add: js_or_def)
next
  case False
  with assms have "1 \<le> n"
    by linarith
  then show ?thesis
    using False by (simp add: js_or_def max_def)
qed

lemma js_or_round_nonneg:
  assumes "0 \<le> x"
  shows "js_or (Math_round x) 1 = max 1 (Math_round x)"
proof -
  have "(0::int) \<le> \<lfloor>x + 1 / 2\<rfloor>"
    using assms by simp
  then show ?thesis
    unfolding Math_round_def by (rule js_or_of_int)
qed

subsection \<open>The calculators at the example input\<close>

lemma linearProps_example:
  "linearProps example_props
     = Some (\<lparr>bpsPerBlock = 75, charWidth = 772 / 75, elementHeight = 16, lineHeight = 21,
              seqFontSize = 15, linear_size = \<lparr>height = 400, width = 772\<rparr>,
              linear_zoom = 50\<rparr>,
             example_props)"
  by (simp add: linearProps_def example_props_def size_of_def write_size_def Math_round_def
        js_or_def Let_def)

text \<open>
  An amino-acid sequence at zoom 5: the base 112 is divided by 3 and rounded, 37, and then
  tripled, 111 (tripling first and dividing afterwards would leave 112).
\<close>

lemma linearProps_example_aa:
  "linearProps (example_props\<lparr>seqType := aa, zoom := \<lparr>zoom_circular = 50, zoom_linear = 5\<rparr>\<rparr>)
     = Some (\<lparr>bpsPerBlock = 111, charWidth = 772 / 111, elementHeight = 16, lineHeight = 14,
              seqFontSize = 10, linear_size = \<lparr>height = 400, width = 772\<rparr>,
              linear_zoom = 5\<rparr>,
             example_props\<lparr>seqType := aa, zoom := \<lparr>zoom_circular = 50, zoom_linear = 5\<rparr>\<rparr>)"
  by (simp add: linearProps_def example_props_def size_of_def write_size_def Math_round_def
        js_or_def Let_def)

lemma circularProps_small:
  "circularProps (example_props\<lparr>seq := ''A'', props_height := 1, props_width := 1\<rparr>)
     = (\<lparr>bpsOnArc = exp (ln 50 / - (100 powr 0.83)), center_x = 1 / 2, center_y = 1 / 2,
         radius = 0.34, circular_size = \<lparr>height = 1, width = 1\<rparr>, yDiff = 0,
         circular_zoom = 50\<rparr>,
        example_props\<lparr>seq := ''A'', props_height := 1, props_width := 1\<rparr>)"
  by (simp add: circularProps_def example_props_def size_of_def write_size_def Let_def)

text \<open>The calculators read the size from the \<^verbatim>\<open>testSize\<close> or the props, not from the zoom.\<close>

lemma size_of_zoom: "size_of (p\<lparr>zoom := z\<rparr>) = size_of p"
  by (simp add: size_of_def split: option.split)

text \<open>
  Without a \<^verbatim>\<open>testSize\<close> the calculators leave the props as they are: \<^verbatim>\<open>size\<close> is then
  an object of their own.
\<close>

lemma linearProps_without_testSize:
  assumes "testSize p = None" and "linearProps p = Some (lp, p')"
  shows "p' = p"
  using assms by (auto simp add: linearProps_def write_size_def Let_def split: if_splits)

lemma circularProps_without_testSize:
  assumes "testSize p = None"
  shows "snd (circularProps p) = p"
  using assms by (simp add: circularProps_def write_size_def Let_def)

subsection \<open>Doubles\<close>

text \<open>
  How \<open>double\<close> is evaluated: for a real whose magnitude, scaled by \<open>2 ^ n\<close>, lies from
  \<open>2 ^ 52\<close> to below \<open>2 ^ 53\<close>, the significand is that scaled value rounded.
\<close>

lemma double_eval:
  assumes lo: "2 ^ 52 \<le> \<bar>x\<bar> * 2 ^ n" and hi: "\<bar>x\<bar> * 2 ^ n < 2 ^ 53" and n: "n \<le> 1074"
  shows "double x = of_int (round_even (x * 2 ^ n)) / 2 ^ n"
proof -
  have x: "x \<noteq> 0"
    using lo by auto
  then have pos: "0 < \<bar>x\<bar>"
    by simp
  have p: "(2::real) powr (of_int (52 - int n)) = 2 ^ 52 / 2 ^ n"
    by (simp add: powr_diff powr_realpow)
  have p1: "(2::real) powr (of_int (52 - int n + 1)) = 2 ^ 53 / 2 ^ n"
    by (simp add: powr_diff powr_realpow powr_add)
  have "2 powr (of_int (52 - int n)) \<le> \<bar>x\<bar>"
    unfolding p using lo by (simp add: field_simps)
  moreover have "\<bar>x\<bar> < 2 powr (of_int (52 - int n + 1))"
    unfolding p1 using hi by (simp add: field_simps)
  ultimately have e: "\<lfloor>log 2 \<bar>x\<bar>\<rfloor> = 52 - int n"
    using floor_log_eq_powr_iff [of "\<bar>x\<bar>" 2 "52 - int n"] pos by simp
  have m: "max (- 1022) (52 - int n) = 52 - int n"
    using n by simp
  have u: "(2::real) powr (of_int (52 - int n) - 52) = 1 / 2 ^ n"
    by (simp add: powr_minus powr_realpow field_simps)
  show ?thesis
    using x by (simp add: double_def Let_def e m u del: of_int_diff)
qed

lemma double_0_1: "double (1 / 10) = 7205759403792794 / 2 ^ 56"
  by (subst double_eval [where n = 56]) (simp_all add: round_even_def Let_def)

lemma double_1_4: "double (14 / 10) = 6305039478318694 / 2 ^ 52"
  by (subst double_eval [where n = 52]) (simp_all add: round_even_def Let_def)

lemma round_even_nonneg: "0 \<le> x \<Longrightarrow> 0 \<le> round_even x"
  by (simp add: round_even_def Let_def)

lemma double_nonneg:
  assumes "0 \<le> x"
  shows "0 \<le> double x"
proof (cases "x = 0")
  case True
  then show ?thesis
    by (simp add: double_def)
next
  case False
  define u :: real where "u = 2 powr (of_int (max (- 1022) \<lfloor>log 2 \<bar>x\<bar>\<rfloor>) - 52)"
  have "0 < u"
    by (simp add: u_def)
  with assms have "0 \<le> x / u"
    by simp
  then have "0 \<le> round_even (x / u)"
    by (rule round_even_nonneg)
  with \<open>0 < u\<close> have "0 \<le> of_int (round_even (x / u)) * u"
    by simp
  moreover have "double x = of_int (round_even (x / u)) * u"
    using False unfolding double_def Let_def u_def by simp
  ultimately show ?thesis
    by simp
qed

text \<open>
  For a zoom that is not negative the font size is at least 1 in the arithmetic of doubles
  too: a double of at least 1 is rounded from every real of at least 1.
\<close>

lemma round_even_ge_floor: "\<lfloor>x\<rfloor> \<le> round_even x"
  by (simp add: round_even_def Let_def)

lemma double_ge_1:
  assumes "1 \<le> x"
  shows "1 \<le> double x"
proof -
  define e where "e = \<lfloor>log 2 \<bar>x\<bar>\<rfloor>"
  define u :: real where "u = 2 powr (of_int (max (- 1022) e) - 52)"
  have x: "0 < \<bar>x\<bar>" "\<bar>x\<bar> = x" "x \<noteq> 0"
    using assms by simp_all
  have "0 \<le> log 2 x"
    using assms by simp
  then have e0: "0 \<le> e"
    unfolding e_def x(2) by simp
  then have m: "max (- 1022) e = e"
    by simp
  have lo: "2 powr (of_int e) \<le> x"
    using floor_log_eq_powr_iff [of "\<bar>x\<bar>" 2 e] x e_def by simp
  have u: "0 < u" "u = 2 powr (of_int e) / 2 ^ 52"
    by (simp_all add: u_def m powr_diff)
  have "2 ^ 52 * u \<le> x"
    using lo by (simp add: u(2))
  then have "2 ^ 52 \<le> x / u"
    using u(1) by (simp only: pos_le_divide_eq)
  then have "(2 ^ 52 :: int) \<le> \<lfloor>x / u\<rfloor>"
    by (simp add: le_floor_iff)
  also have "\<dots> \<le> round_even (x / u)"
    by (rule round_even_ge_floor)
  finally have "(2 ^ 52 :: real) \<le> of_int (round_even (x / u))"
    by (metis of_int_le_iff of_int_numeral of_int_power)
  then have "2 ^ 52 * u \<le> of_int (round_even (x / u)) * u"
    using u(1) by simp
  moreover have "2 ^ 52 * u = 2 powr (of_int e)"
    by (simp add: u(2))
  moreover have "(1::real) \<le> 2 powr (of_int e)"
    using e0 by (simp add: ge_one_powr_ge_zero)
  moreover have "double x = of_int (round_even (x / u)) * u"
    using x(3) unfolding double_def Let_def u_def e_def by simp
  ultimately show ?thesis
    by linarith
qed

lemma seqFontSize_ieee_pos:
  assumes "0 \<le> z"
  shows "1 \<le> min (Math_round (double (double (z * double 0.1) + 9.5))) 18"
proof -
  have "0 \<le> double 0.1"
    by (intro double_nonneg) simp
  with assms have "0 \<le> double (z * double 0.1)"
    by (intro double_nonneg) simp
  then have "1 \<le> double (double (z * double 0.1) + 9.5)"
    by (intro double_ge_1) simp
  then have "Math_round 1 \<le> Math_round (double (double (z * double 0.1) + 9.5))"
    by (rule Math_round_mono)
  moreover have "Math_round 1 = 1"
    by (simp add: Math_round_def)
  ultimately show ?thesis
    by simp
qed

text \<open>
  \<open>linearProps_ieee\<close> as one equation, the successive values named: what is left to do at
  an input is to compute each of them.
\<close>

lemma linearProps_ieee_eq:
  assumes z: "z = zoom_linear (zoom p)"
    and w: "w = (if includes_both (viewer p) then double (width (size_of p) / 2)
                 else width (size_of p))"
    and f: "f = min (Math_round (double (double (z * double 0.1) + 9.5))) 18"
    and base: "base = js_or (Math_round (double (double (w / f) * double 1.4))) 1"
    and adjusted: "adjusted = (if seqType p = aa then Math_round (double (base / 3)) else base)"
    and scaled: "scaled = (if z \<le> 5 then double (adjusted * 3)
                    else if z \<le> 10 then double (adjusted * 2)
                    else if 70 < z then Math_round (double (adjusted * double (70 / z)))
                    else adjusted)"
    and bps: "bps = max 1 scaled"
    and wr: "wr = (if w \<noteq> 0 \<and> bps < real (length (seq p)) then double (w - 28) else w)"
    and nz: "f \<noteq> 0"
    and range: "\<bar>width (size_of p)\<bar> \<le> 2 ^ 1000"
  shows "linearProps_ieee p
         = Some (\<lparr>bpsPerBlock = bps, charWidth = double (wr / bps), elementHeight = 16,
                   lineHeight = double (double 1.4 * f), seqFontSize = f,
                   linear_size = (size_of p)\<lparr>width := wr\<rparr>, linear_zoom = z\<rparr>,
                 write_size ((size_of p)\<lparr>width := wr\<rparr>) p)"
proof -
  define size1 where
    "size1 = (if includes_both (viewer p)
              then (size_of p)\<lparr>width := double (width (size_of p) / 2)\<rparr> else size_of p)"
  define bps3 where
    "bps3 = max 1
       (if z \<le> 5
        then double ((if seqType p = aa
               then Math_round (double (js_or (Math_round (double (double (width size1 / f) * double 1.4))) 1 / 3))
               else js_or (Math_round (double (double (width size1 / f) * double 1.4))) 1) * 3)
        else if z \<le> 10
        then double ((if seqType p = aa
               then Math_round (double (js_or (Math_round (double (double (width size1 / f) * double 1.4))) 1 / 3))
               else js_or (Math_round (double (double (width size1 / f) * double 1.4))) 1) * 2)
        else if z > 70
        then Math_round (double
          ((if seqType p = aa
            then Math_round (double (js_or (Math_round (double (double (width size1 / f) * double 1.4))) 1 / 3))
            else js_or (Math_round (double (double (width size1 / f) * double 1.4))) 1)
           * double (70 / z)))
        else (if seqType p = aa
              then Math_round (double (js_or (Math_round (double (double (width size1 / f) * double 1.4))) 1 / 3))
              else js_or (Math_round (double (double (width size1 / f) * double 1.4))) 1))"
  define size2 where
    "size2 = (if width size1 \<noteq> 0 \<and> bps3 < real (length (seq p))
              then size1\<lparr>width := double (width size1 - 28)\<rparr> else size1)"
  have unfolded: "linearProps_ieee p =
      (if f = 0 \<or> 2 ^ 1000 < \<bar>width (size_of p)\<bar> then None
       else Some (\<lparr>bpsPerBlock = bps3, charWidth = double (width size2 / bps3),
                    elementHeight = 16, lineHeight = double (double 1.4 * f), seqFontSize = f,
                    linear_size = size2, linear_zoom = z\<rparr>,
                  write_size size2 p))"
    unfolding linearProps_ieee_def Let_def size2_def bps3_def size1_def f z ..
  have w1: "width size1 = w"
    by (simp add: size1_def w)
  have bps3: "bps3 = bps"
    unfolding bps3_def w1 bps scaled adjusted base by simp
  have size2: "size2 = (size_of p)\<lparr>width := wr\<rparr>"
    unfolding size2_def w1 bps3 wr by (simp add: size1_def w)
  show ?thesis
    unfolding unfolded bps3 size2 using nz range by simp
qed

text \<open>
  The example input, and the amino-acid sequence at zoom 5, in the arithmetic of doubles:
  the same \<^verbatim>\<open>bpsPerBlock\<close> as in exact arithmetic, 75 and 111.
\<close>

lemma linearProps_ieee_example:
  "linearProps_ieee (example_props)
     = Some (\<lparr>bpsPerBlock = 75, charWidth = 5794631520550038 / 2 ^ 49, elementHeight = 16,
              lineHeight = 21, seqFontSize = 15,
              linear_size = \<lparr>height = 400, width = 772\<rparr>, linear_zoom = 50\<rparr>,
             example_props)"
proof -
  have t2: "double (50 * (7205759403792794 / 2 ^ 56)) = 5"
    by (subst double_eval [where n = 50]) (simp_all add: round_even_def Let_def)
  have t3: "double (5 + 9.5) = 29 / 2"
    by (subst double_eval [where n = 49]) (simp_all add: round_even_def Let_def)
  have q: "double (800 / 15) = 7505999378950827 / 2 ^ 47"
    by (subst double_eval [where n = 47]) (simp_all add: round_even_def Let_def)
  have t5: "double (7505999378950827 / 2 ^ 47 * (6305039478318694 / 2 ^ 52)) = 5254199565265579 / 2 ^ 46"
    by (subst double_eval [where n = 46]) (simp_all add: round_even_def Let_def)
  have sub: "double (800 - 28) = 772"
    by (subst double_eval [where n = 43]) (simp_all add: round_even_def Let_def)
  have cw: "double (772 / 75) = 5794631520550038 / 2 ^ 49"
    by (subst double_eval [where n = 49]) (simp_all add: round_even_def Let_def)
  have lh: "double (6305039478318694 / 2 ^ 52 * 15) = 21"
    by (subst double_eval [where n = 48]) (simp_all add: round_even_def Let_def)
  have eq: "linearProps_ieee (example_props)
     = Some (\<lparr>bpsPerBlock = 75, charWidth = double (772 / 75), elementHeight = 16,
              lineHeight = double (double 1.4 * 15), seqFontSize = 15,
              linear_size = (size_of (example_props))\<lparr>width := 772\<rparr>, linear_zoom = 50\<rparr>,
             write_size ((size_of (example_props))\<lparr>width := 772\<rparr>) (example_props))"
  proof (rule linearProps_ieee_eq [where z = 50 and w = 800 and f = 15 and base = 75
        and adjusted = 75 and scaled = 75 and bps = 75 and wr = 772])
    show "50 = zoom_linear (zoom (example_props))"
      by (simp add: example_props_def)
    show "800 = (if includes_both (viewer (example_props))
               then double (width (size_of (example_props)) / 2)
               else width (size_of (example_props)))"
      by (simp add: example_props_def size_of_def)
    show "15 = min (Math_round (double (double (50 * double 0.1) + 9.5))) 18"
      unfolding double_0_1 t2 t3 by (simp add: Math_round_def)
    show "75 = js_or (Math_round (double (double (800 / 15) * double 1.4))) 1"
      unfolding q double_1_4 t5 by (simp add: Math_round_def js_or_def)
    show "75 = (if seqType (example_props) = aa
               then Math_round (double (75 / 3)) else 75)"
      by (simp add: example_props_def Math_round_def)
    show "75 = (if (50::real) \<le> 5 then double (75 * 3)
               else if (50::real) \<le> 10 then double (75 * 2)
               else if 70 < (50::real) then Math_round (double (75 * double (70 / 50)))
               else 75)"
      by (simp add: Math_round_def)
    show "75 = max 1 (75::real)"
      by simp
    show "772 = (if (800::real) \<noteq> 0 \<and> 75 < real (length (seq (example_props)))
               then double (800 - 28) else 800)"
      unfolding sub by (simp add: example_props_def)
    show "(15::real) \<noteq> 0"
      by simp
    show "\<bar>width (size_of (example_props))\<bar> \<le> 2 ^ 1000"
      by (simp add: example_props_def size_of_def)
  qed
  show ?thesis
    unfolding eq cw double_1_4 lh
    by (simp add: example_props_def size_of_def write_size_def)
qed

lemma linearProps_ieee_example_aa:
  "linearProps_ieee (example_props\<lparr>seqType := aa, zoom := \<lparr>zoom_circular = 50, zoom_linear = 5\<rparr>\<rparr>)
     = Some (\<lparr>bpsPerBlock = 111, charWidth = 7830583135878430 / 2 ^ 50, elementHeight = 16,
              lineHeight = 14, seqFontSize = 10,
              linear_size = \<lparr>height = 400, width = 772\<rparr>, linear_zoom = 5\<rparr>,
             example_props\<lparr>seqType := aa, zoom := \<lparr>zoom_circular = 50, zoom_linear = 5\<rparr>\<rparr>)"
proof -
  have t2: "double (5 * (7205759403792794 / 2 ^ 56)) = 1 / 2"
    by (subst double_eval [where n = 53]) (simp_all add: round_even_def Let_def)
  have t3: "double (1 / 2 + 9.5) = 10"
    by (subst double_eval [where n = 49]) (simp_all add: round_even_def Let_def)
  have q: "double (800 / 10) = 80"
    by (subst double_eval [where n = 46]) (simp_all add: round_even_def Let_def)
  have t5: "double (80 * (6305039478318694 / 2 ^ 52)) = 112"
    by (subst double_eval [where n = 46]) (simp_all add: round_even_def Let_def)
  have third: "double (112 / 3) = 5254199565265579 / 2 ^ 47"
    by (subst double_eval [where n = 47]) (simp_all add: round_even_def Let_def)
  have x3: "double (37 * 3) = 111"
    by (subst double_eval [where n = 46]) (simp_all add: round_even_def Let_def)
  have sub: "double (800 - 28) = 772"
    by (subst double_eval [where n = 43]) (simp_all add: round_even_def Let_def)
  have cw: "double (772 / 111) = 7830583135878430 / 2 ^ 50"
    by (subst double_eval [where n = 50]) (simp_all add: round_even_def Let_def)
  have lh: "double (6305039478318694 / 2 ^ 52 * 10) = 14"
    by (subst double_eval [where n = 49]) (simp_all add: round_even_def Let_def)
  have eq: "linearProps_ieee (example_props\<lparr>seqType := aa, zoom := \<lparr>zoom_circular = 50, zoom_linear = 5\<rparr>\<rparr>)
     = Some (\<lparr>bpsPerBlock = 111, charWidth = double (772 / 111), elementHeight = 16,
              lineHeight = double (double 1.4 * 10), seqFontSize = 10,
              linear_size = (size_of (example_props\<lparr>seqType := aa, zoom := \<lparr>zoom_circular = 50, zoom_linear = 5\<rparr>\<rparr>))\<lparr>width := 772\<rparr>, linear_zoom = 5\<rparr>,
             write_size ((size_of (example_props\<lparr>seqType := aa, zoom := \<lparr>zoom_circular = 50, zoom_linear = 5\<rparr>\<rparr>))\<lparr>width := 772\<rparr>) (example_props\<lparr>seqType := aa, zoom := \<lparr>zoom_circular = 50, zoom_linear = 5\<rparr>\<rparr>))"
  proof (rule linearProps_ieee_eq [where z = 5 and w = 800 and f = 10 and base = 112
        and adjusted = 37 and scaled = 111 and bps = 111 and wr = 772])
    show "5 = zoom_linear (zoom (example_props\<lparr>seqType := aa, zoom := \<lparr>zoom_circular = 50, zoom_linear = 5\<rparr>\<rparr>))"
      by (simp add: example_props_def)
    show "800 = (if includes_both (viewer (example_props\<lparr>seqType := aa, zoom := \<lparr>zoom_circular = 50, zoom_linear = 5\<rparr>\<rparr>))
               then double (width (size_of (example_props\<lparr>seqType := aa, zoom := \<lparr>zoom_circular = 50, zoom_linear = 5\<rparr>\<rparr>)) / 2)
               else width (size_of (example_props\<lparr>seqType := aa, zoom := \<lparr>zoom_circular = 50, zoom_linear = 5\<rparr>\<rparr>)))"
      by (simp add: example_props_def size_of_def)
    show "10 = min (Math_round (double (double (5 * double 0.1) + 9.5))) 18"
      unfolding double_0_1 t2 t3 by (simp add: Math_round_def)
    show "112 = js_or (Math_round (double (double (800 / 10) * double 1.4))) 1"
      unfolding q double_1_4 t5 by (simp add: Math_round_def js_or_def)
    show "37 = (if seqType (example_props\<lparr>seqType := aa, zoom := \<lparr>zoom_circular = 50, zoom_linear = 5\<rparr>\<rparr>) = aa
               then Math_round (double (112 / 3)) else 112)"
      unfolding third by (simp add: example_props_def Math_round_def)
    show "111 = (if (5::real) \<le> 5 then double (37 * 3)
               else if (5::real) \<le> 10 then double (37 * 2)
               else if 70 < (5::real) then Math_round (double (37 * double (70 / 5)))
               else 37)"
      unfolding x3 by (simp add: Math_round_def)
    show "111 = max 1 (111::real)"
      by simp
    show "772 = (if (800::real) \<noteq> 0 \<and> 111 < real (length (seq (example_props\<lparr>seqType := aa, zoom := \<lparr>zoom_circular = 50, zoom_linear = 5\<rparr>\<rparr>)))
               then double (800 - 28) else 800)"
      unfolding sub by (simp add: example_props_def)
    show "(10::real) \<noteq> 0"
      by simp
    show "\<bar>width (size_of (example_props\<lparr>seqType := aa, zoom := \<lparr>zoom_circular = 50, zoom_linear = 5\<rparr>\<rparr>))\<bar> \<le> 2 ^ 1000"
      by (simp add: example_props_def size_of_def)
  qed
  show ?thesis
    unfolding eq cw double_1_4 lh
    by (simp add: example_props_def size_of_def write_size_def)
qed

text \<open>
  Two inputs where the rounding of the doubles decides: at width 775 and zoom 45 the
  product \<^verbatim>\<open>(775 / 14) * 1.4\<close> is just below 77.5 and \<^verbatim>\<open>bpsPerBlock\<close> is 77; at width 580
  and zoom 100 the product \<^verbatim>\<open>45 * (70 / 100)\<close> is just below 31.5 and \<^verbatim>\<open>bpsPerBlock\<close> is 31.
  In exact arithmetic the products are 77.5 and 31.5, and \<open>linearProps\<close> gives 78 and 32.
\<close>

lemma linearProps_ieee_example_775:
  "linearProps_ieee (example_props\<lparr>props_width := 775, zoom := \<lparr>zoom_circular = 50, zoom_linear = 45\<rparr>\<rparr>)
     = Some (\<lparr>bpsPerBlock = 77, charWidth = 5461345652022338 / 2 ^ 49, elementHeight = 16,
              lineHeight = 5516909543528857 / 2 ^ 48, seqFontSize = 14,
              linear_size = \<lparr>height = 400, width = 747\<rparr>, linear_zoom = 45\<rparr>,
             example_props\<lparr>props_width := 775, zoom := \<lparr>zoom_circular = 50, zoom_linear = 45\<rparr>\<rparr>)"
proof -
  have t2: "double (45 * (7205759403792794 / 2 ^ 56)) = 9 / 2"
    by (subst double_eval [where n = 50]) (simp_all add: round_even_def Let_def)
  have t3: "double (9 / 2 + 9.5) = 14"
    by (subst double_eval [where n = 49]) (simp_all add: round_even_def Let_def)
  have q: "double (775 / 14) = 7790825248241371 / 2 ^ 47"
    by (subst double_eval [where n = 47]) (simp_all add: round_even_def Let_def)
  have t5: "double (7790825248241371 / 2 ^ 47 * (6305039478318694 / 2 ^ 52)) = 5453577673768959 / 2 ^ 46"
    by (subst double_eval [where n = 46]) (simp_all add: round_even_def Let_def)
  have sub: "double (775 - 28) = 747"
    by (subst double_eval [where n = 43]) (simp_all add: round_even_def Let_def)
  have cw: "double (747 / 77) = 5461345652022338 / 2 ^ 49"
    by (subst double_eval [where n = 49]) (simp_all add: round_even_def Let_def)
  have lh: "double (6305039478318694 / 2 ^ 52 * 14) = 5516909543528857 / 2 ^ 48"
    by (subst double_eval [where n = 48]) (simp_all add: round_even_def Let_def)
  have eq: "linearProps_ieee (example_props\<lparr>props_width := 775, zoom := \<lparr>zoom_circular = 50, zoom_linear = 45\<rparr>\<rparr>)
     = Some (\<lparr>bpsPerBlock = 77, charWidth = double (747 / 77), elementHeight = 16,
              lineHeight = double (double 1.4 * 14), seqFontSize = 14,
              linear_size = (size_of (example_props\<lparr>props_width := 775, zoom := \<lparr>zoom_circular = 50, zoom_linear = 45\<rparr>\<rparr>))\<lparr>width := 747\<rparr>, linear_zoom = 45\<rparr>,
             write_size ((size_of (example_props\<lparr>props_width := 775, zoom := \<lparr>zoom_circular = 50, zoom_linear = 45\<rparr>\<rparr>))\<lparr>width := 747\<rparr>) (example_props\<lparr>props_width := 775, zoom := \<lparr>zoom_circular = 50, zoom_linear = 45\<rparr>\<rparr>))"
  proof (rule linearProps_ieee_eq [where z = 45 and w = 775 and f = 14 and base = 77
        and adjusted = 77 and scaled = 77 and bps = 77 and wr = 747])
    show "45 = zoom_linear (zoom (example_props\<lparr>props_width := 775, zoom := \<lparr>zoom_circular = 50, zoom_linear = 45\<rparr>\<rparr>))"
      by (simp add: example_props_def)
    show "775 = (if includes_both (viewer (example_props\<lparr>props_width := 775, zoom := \<lparr>zoom_circular = 50, zoom_linear = 45\<rparr>\<rparr>))
               then double (width (size_of (example_props\<lparr>props_width := 775, zoom := \<lparr>zoom_circular = 50, zoom_linear = 45\<rparr>\<rparr>)) / 2)
               else width (size_of (example_props\<lparr>props_width := 775, zoom := \<lparr>zoom_circular = 50, zoom_linear = 45\<rparr>\<rparr>)))"
      by (simp add: example_props_def size_of_def)
    show "14 = min (Math_round (double (double (45 * double 0.1) + 9.5))) 18"
      unfolding double_0_1 t2 t3 by (simp add: Math_round_def)
    show "77 = js_or (Math_round (double (double (775 / 14) * double 1.4))) 1"
      unfolding q double_1_4 t5 by (simp add: Math_round_def js_or_def)
    show "77 = (if seqType (example_props\<lparr>props_width := 775, zoom := \<lparr>zoom_circular = 50, zoom_linear = 45\<rparr>\<rparr>) = aa
               then Math_round (double (77 / 3)) else 77)"
      by (simp add: example_props_def Math_round_def)
    show "77 = (if (45::real) \<le> 5 then double (77 * 3)
               else if (45::real) \<le> 10 then double (77 * 2)
               else if 70 < (45::real) then Math_round (double (77 * double (70 / 45)))
               else 77)"
      by (simp add: Math_round_def)
    show "77 = max 1 (77::real)"
      by simp
    show "747 = (if (775::real) \<noteq> 0 \<and> 77 < real (length (seq (example_props\<lparr>props_width := 775, zoom := \<lparr>zoom_circular = 50, zoom_linear = 45\<rparr>\<rparr>)))
               then double (775 - 28) else 775)"
      unfolding sub by (simp add: example_props_def)
    show "(14::real) \<noteq> 0"
      by simp
    show "\<bar>width (size_of (example_props\<lparr>props_width := 775, zoom := \<lparr>zoom_circular = 50, zoom_linear = 45\<rparr>\<rparr>))\<bar> \<le> 2 ^ 1000"
      by (simp add: example_props_def size_of_def)
  qed
  show ?thesis
    unfolding eq cw double_1_4 lh
    by (simp add: example_props_def size_of_def write_size_def)
qed

lemma linearProps_ieee_example_580:
  "linearProps_ieee (example_props\<lparr>props_width := 580, zoom := \<lparr>zoom_circular = 50, zoom_linear = 100\<rparr>\<rparr>)
     = Some (\<lparr>bpsPerBlock = 31, charWidth = 5012070553041358 / 2 ^ 48, elementHeight = 16,
              lineHeight = 7093169413108531 / 2 ^ 48, seqFontSize = 18,
              linear_size = \<lparr>height = 400, width = 552\<rparr>, linear_zoom = 100\<rparr>,
             example_props\<lparr>props_width := 580, zoom := \<lparr>zoom_circular = 50, zoom_linear = 100\<rparr>\<rparr>)"
proof -
  have t2: "double (100 * (7205759403792794 / 2 ^ 56)) = 10"
    by (subst double_eval [where n = 49]) (simp_all add: round_even_def Let_def)
  have t3: "double (10 + 9.5) = 39 / 2"
    by (subst double_eval [where n = 48]) (simp_all add: round_even_def Let_def)
  have q: "double (580 / 18) = 4534874624782791 / 2 ^ 47"
    by (subst double_eval [where n = 47]) (simp_all add: round_even_def Let_def)
  have t5: "double (4534874624782791 / 2 ^ 47 * (6305039478318694 / 2 ^ 52)) = 6348824474695907 / 2 ^ 47"
    by (subst double_eval [where n = 47]) (simp_all add: round_even_def Let_def)
  have r: "double (70 / 100) = 6305039478318694 / 2 ^ 53"
    by (subst double_eval [where n = 53]) (simp_all add: round_even_def Let_def)
  have s: "double (45 * (6305039478318694 / 2 ^ 53)) = 8866461766385663 / 2 ^ 48"
    by (subst double_eval [where n = 48]) (simp_all add: round_even_def Let_def)
  have sub: "double (580 - 28) = 552"
    by (subst double_eval [where n = 43]) (simp_all add: round_even_def Let_def)
  have cw: "double (552 / 31) = 5012070553041358 / 2 ^ 48"
    by (subst double_eval [where n = 48]) (simp_all add: round_even_def Let_def)
  have lh: "double (6305039478318694 / 2 ^ 52 * 18) = 7093169413108531 / 2 ^ 48"
    by (subst double_eval [where n = 48]) (simp_all add: round_even_def Let_def)
  have eq: "linearProps_ieee (example_props\<lparr>props_width := 580, zoom := \<lparr>zoom_circular = 50, zoom_linear = 100\<rparr>\<rparr>)
     = Some (\<lparr>bpsPerBlock = 31, charWidth = double (552 / 31), elementHeight = 16,
              lineHeight = double (double 1.4 * 18), seqFontSize = 18,
              linear_size = (size_of (example_props\<lparr>props_width := 580, zoom := \<lparr>zoom_circular = 50, zoom_linear = 100\<rparr>\<rparr>))\<lparr>width := 552\<rparr>, linear_zoom = 100\<rparr>,
             write_size ((size_of (example_props\<lparr>props_width := 580, zoom := \<lparr>zoom_circular = 50, zoom_linear = 100\<rparr>\<rparr>))\<lparr>width := 552\<rparr>) (example_props\<lparr>props_width := 580, zoom := \<lparr>zoom_circular = 50, zoom_linear = 100\<rparr>\<rparr>))"
  proof (rule linearProps_ieee_eq [where z = 100 and w = 580 and f = 18 and base = 45
        and adjusted = 45 and scaled = 31 and bps = 31 and wr = 552])
    show "100 = zoom_linear (zoom (example_props\<lparr>props_width := 580, zoom := \<lparr>zoom_circular = 50, zoom_linear = 100\<rparr>\<rparr>))"
      by (simp add: example_props_def)
    show "580 = (if includes_both (viewer (example_props\<lparr>props_width := 580, zoom := \<lparr>zoom_circular = 50, zoom_linear = 100\<rparr>\<rparr>))
               then double (width (size_of (example_props\<lparr>props_width := 580, zoom := \<lparr>zoom_circular = 50, zoom_linear = 100\<rparr>\<rparr>)) / 2)
               else width (size_of (example_props\<lparr>props_width := 580, zoom := \<lparr>zoom_circular = 50, zoom_linear = 100\<rparr>\<rparr>)))"
      by (simp add: example_props_def size_of_def)
    show "18 = min (Math_round (double (double (100 * double 0.1) + 9.5))) 18"
      unfolding double_0_1 t2 t3 by (simp add: Math_round_def)
    show "45 = js_or (Math_round (double (double (580 / 18) * double 1.4))) 1"
      unfolding q double_1_4 t5 by (simp add: Math_round_def js_or_def)
    show "45 = (if seqType (example_props\<lparr>props_width := 580, zoom := \<lparr>zoom_circular = 50, zoom_linear = 100\<rparr>\<rparr>) = aa
               then Math_round (double (45 / 3)) else 45)"
      by (simp add: example_props_def Math_round_def)
    show "31 = (if (100::real) \<le> 5 then double (45 * 3)
               else if (100::real) \<le> 10 then double (45 * 2)
               else if 70 < (100::real) then Math_round (double (45 * double (70 / 100)))
               else 45)"
      unfolding r s by (simp add: Math_round_def)
    show "31 = max 1 (31::real)"
      by simp
    show "552 = (if (580::real) \<noteq> 0 \<and> 31 < real (length (seq (example_props\<lparr>props_width := 580, zoom := \<lparr>zoom_circular = 50, zoom_linear = 100\<rparr>\<rparr>)))
               then double (580 - 28) else 580)"
      unfolding sub by (simp add: example_props_def)
    show "(18::real) \<noteq> 0"
      by simp
    show "\<bar>width (size_of (example_props\<lparr>props_width := 580, zoom := \<lparr>zoom_circular = 50, zoom_linear = 100\<rparr>\<rparr>))\<bar> \<le> 2 ^ 1000"
      by (simp add: example_props_def size_of_def)
  qed
  show ?thesis
    unfolding eq cw double_1_4 lh
    by (simp add: example_props_def size_of_def write_size_def)
qed

lemma linearProps_exact_775_580:
  "linearProps (example_props\<lparr>props_width := 775, zoom := \<lparr>zoom_circular = 50, zoom_linear = 45\<rparr>\<rparr>)
     = Some (\<lparr>bpsPerBlock = 78, charWidth = 747 / 78, elementHeight = 16, lineHeight = 98 / 5,
              seqFontSize = 14, linear_size = \<lparr>height = 400, width = 747\<rparr>,
              linear_zoom = 45\<rparr>,
             example_props\<lparr>props_width := 775, zoom := \<lparr>zoom_circular = 50, zoom_linear = 45\<rparr>\<rparr>)
   \<and> linearProps (example_props\<lparr>props_width := 580, zoom := \<lparr>zoom_circular = 50, zoom_linear = 100\<rparr>\<rparr>)
     = Some (\<lparr>bpsPerBlock = 32, charWidth = 552 / 32, elementHeight = 16, lineHeight = 126 / 5,
              seqFontSize = 18, linear_size = \<lparr>height = 400, width = 552\<rparr>,
              linear_zoom = 100\<rparr>,
             example_props\<lparr>props_width := 580, zoom := \<lparr>zoom_circular = 50, zoom_linear = 100\<rparr>\<rparr>)"
  by (simp add: linearProps_def example_props_def size_of_def write_size_def Math_round_def
        js_or_def Let_def)

lemma seqFontSize_ieee_example:
  "min (Math_round (double (double (zoom_linear (zoom example_props) * double 0.1) + 9.5))) 18 = 15"
proof -
  have z: "zoom_linear (zoom example_props) = 50"
    by (simp add: example_props_def)
  have t2: "double (50 * (7205759403792794 / 2 ^ 56)) = 5"
    by (subst double_eval [where n = 50]) (simp_all add: round_even_def Let_def)
  have t3: "double (5 + 9.5) = 29 / 2"
    by (subst double_eval [where n = 49]) (simp_all add: round_even_def Let_def)
  show ?thesis
    unfolding z double_0_1 t2 t3 by (simp add: Math_round_def)
qed

lemma claimed_bpsPerBlock_example_aa:
  "claimed_bpsPerBlock
     (example_props\<lparr>seqType := aa, zoom := \<lparr>zoom_circular = 50, zoom_linear = 5\<rparr>\<rparr>) = 112"
  by (simp add: claimed_bpsPerBlock_def example_props_def size_of_def Math_round_def Let_def)

subsection \<open>Selection\<close>

text \<open>
  C1. Resolving the selection: with a caller-supplied selection, \<^verbatim>\<open>getSelection\<close> returns
  that input (its \<^verbatim>\<open>start\<close>, its \<^verbatim>\<open>end\<close>, and its \<^verbatim>\<open>clockwise\<close> when it has one) with
  \<^verbatim>\<open>clockwise\<close> true when the caller left it out and \<^verbatim>\<open>type\<close> set to the empty string,
  whatever the internal state; with none, it returns the internal state as it is.
  Caller-supplied \<^verbatim>\<open>{start: 10, end: 20}\<close> resolves to
  \<^verbatim>\<open>{start: 10, end: 20, clockwise: true, type: ""}\<close>.
\<close>

theorem C1_getSelection_resolve:
  "getSelection st None = st
   \<and> getSelection st (Some \<lparr>prop_clockwise = Some b, prop_end = e, prop_start = s\<rparr>)
       = \<lparr>start = s, end' = e, clockwise = b, type' = '''', ref = None, parent = None\<rparr>
   \<and> getSelection st (Some \<lparr>prop_clockwise = None, prop_end = e, prop_start = s\<rparr>)
       = \<lparr>start = s, end' = e, clockwise = True, type' = '''', ref = None, parent = None\<rparr>
   \<and> start (getSelection st (Some pr)) = prop_start pr
   \<and> end' (getSelection st (Some pr)) = prop_end pr
   \<and> clockwise (getSelection st (Some pr))
       = (case prop_clockwise pr of None \<Rightarrow> True | Some c \<Rightarrow> c)
   \<and> type' (getSelection st (Some pr)) = ''''
   \<and> ref (getSelection st (Some pr)) = None
   \<and> parent (getSelection st (Some pr)) = None
   \<and> clockwise (getSelection st (Some (pr\<lparr>prop_clockwise := None\<rparr>))) = True
   \<and> getSelection st (Some \<lparr>prop_clockwise = None, prop_end = 20, prop_start = 10\<rparr>)
       = \<lparr>start = 10, end' = 20, clockwise = True, type' = '''', ref = None, parent = None\<rparr>"
  by (simp add: getSelection_def)

text \<open>
  C10. An explicit \<^verbatim>\<open>clockwise: false\<close> of the caller is kept: only an absent
  \<^verbatim>\<open>clockwise\<close> becomes true. The resolved \<^verbatim>\<open>clockwise\<close> is false exactly when the caller
  wrote false.
\<close>

theorem C10_getSelection_keeps_false:
  "clockwise (getSelection st (Some (pr\<lparr>prop_clockwise := Some False\<rparr>))) = False
   \<and> clockwise (getSelection st (Some (pr\<lparr>prop_clockwise := Some b\<rparr>))) = b
   \<and> clockwise (getSelection st (Some pr)) = (prop_clockwise pr \<noteq> Some False)"
  by (simp add: getSelection_def split: option.splits)

text \<open>
  C2. Applying a selection: \<^verbatim>\<open>setSelection\<close> calls \<^verbatim>\<open>onSelection\<close> once, with the
  selection without \<^verbatim>\<open>parent\<close> and \<^verbatim>\<open>ref\<close>, whether or not a \<^verbatim>\<open>selection\<close> prop is
  there; it stores the whole selection, \<^verbatim>\<open>parent\<close> and \<^verbatim>\<open>ref\<close> included, in the state
  when there is no \<^verbatim>\<open>selection\<close> prop, and leaves the state alone when there is one. The
  hypothesis is the callback the props interface requires: the source calls it only when
  it is supplied.
\<close>

theorem C2_setSelection_apply:
  assumes "onSelection (props c)"
  shows "onSelection_calls (setSelection sel c)
           = onSelection_calls c
             @ [\<lparr>start = start sel, end' = end' sel, clockwise = clockwise sel, type' = type' sel\<rparr>]
       \<and> (props_selection (props c) = None \<longrightarrow>
            state (setSelection sel c) = (state c)\<lparr>selection := sel\<rparr>)
       \<and> (props_selection (props c) \<noteq> None \<longrightarrow>
            state (setSelection sel c) = state c
            \<and> setState_calls (setSelection sel c) = setState_calls c)
       \<and> (props_selection (props c) = None \<longrightarrow>
            getSelection (selection (state (setSelection sel c)))
              (props_selection (props (setSelection sel c))) = sel)
       \<and> props (setSelection sel c) = props c"
  using assms
  by (simp add: setSelection_def Let_def Selection_rest.truncate_def getSelection_def)

theorem C2_setSelection_apply_witness:
  "onSelection (props (constructor example_props :: (string, string) SeqViewerContainer))
   \<and> onSelection_calls
        (setSelection
           \<lparr>start = 3, end' = 9, clockwise = False, type' = ''SEQ'',
            ref = Some ''r1'', parent = Some ''block''\<rparr>
           (constructor example_props))
      = [\<lparr>start = 3, end' = 9, clockwise = False, type' = ''SEQ''\<rparr>]
   \<and> selection (state
        (setSelection
           \<lparr>start = 3, end' = 9, clockwise = False, type' = ''SEQ'',
            ref = Some ''r1'', parent = Some ''block''\<rparr>
           (constructor example_props)))
      = \<lparr>start = 3, end' = 9, clockwise = False, type' = ''SEQ'',
            ref = Some ''r1'', parent = Some ''block''\<rparr>
   \<and> selection (state
        (setSelection
           \<lparr>start = 3, end' = 9, clockwise = False, type' = ''SEQ'',
            ref = Some ''r1'', parent = Some ''block''\<rparr>
           (constructor (example_props\<lparr>props_selection :=
               Some \<lparr>prop_clockwise = None, prop_end = 20, prop_start = 10\<rparr>\<rparr>))))
      = \<lparr>start = 10, end' = 20, clockwise = True, type' = '''',
            ref = None :: string option, parent = None :: string option\<rparr>"
  using C2_setSelection_apply
          [of "constructor example_props :: (string, string) SeqViewerContainer"
              "\<lparr>start = 3, end' = 9, clockwise = False, type' = ''SEQ'',
                ref = Some ''r1'', parent = Some ''block''\<rparr>"]
        C2_setSelection_apply
          [of "constructor (example_props\<lparr>props_selection :=
               Some \<lparr>prop_clockwise = None, prop_end = 20, prop_start = 10\<rparr>\<rparr>)
                 :: (string, string) SeqViewerContainer"
              "\<lparr>start = 3, end' = 9, clockwise = False, type' = ''SEQ'',
                ref = Some ''r1'', parent = Some ''block''\<rparr>"]
  by (simp add: constructor_def example_props_def getSelection_def)

subsection \<open>Central index\<close>

text \<open>
  C4. With a token other than \<^verbatim>\<open>"LINEAR"\<close> and \<^verbatim>\<open>"CIRCULAR"\<close>, \<^verbatim>\<open>setCentralIndex\<close>
  throws (the spec's \<^verbatim>\<open>InvalidAxisError\<close> is the source's
  \<^verbatim>\<open>Error("Unknown central index type: ...")\<close>) and the component, both stored indices
  included, is as before. \<^verbatim>\<open>setCentralIndex("DIAGONAL", 5)\<close> throws.
\<close>

theorem C4_setCentralIndex_invalid_axis:
  assumes "type \<noteq> ''LINEAR''" and "type \<noteq> ''CIRCULAR''"
  shows "setCentralIndex type value c = (Inl (Error (''Unknown central index type: '' @ type)), c)"
  using assms by (simp add: setCentralIndex_def)

theorem C4_setCentralIndex_invalid_axis_witness:
  "''DIAGONAL'' \<noteq> ''LINEAR'' \<and> ''DIAGONAL'' \<noteq> ''CIRCULAR''
   \<and> setCentralIndex ''DIAGONAL'' 5 (constructor example_props :: (string, string) SeqViewerContainer)
       = (Inl (Error ''Unknown central index type: DIAGONAL''), constructor example_props)
   \<and> centralIndex (state (snd (setCentralIndex ''DIAGONAL'' 5
         (constructor example_props :: (string, string) SeqViewerContainer))))
       = \<lparr>circular_index = 0, linear_index = 0\<rparr>"
  using C4_setCentralIndex_invalid_axis
          [of "''DIAGONAL''" 5 "constructor example_props :: (string, string) SeqViewerContainer"]
  by (simp add: constructor_def)




subsection \<open>Linear layout\<close>

text \<open>
  C7. For a linear zoom from 0 to 100 and any viewport size, \<^verbatim>\<open>linearProps\<close> returns, with
  \<^verbatim>\<open>bpsPerBlock\<close> at least 1 and \<^verbatim>\<open>seqFontSize\<close> at most 18, where
  \<^verbatim>\<open>seqFontSize = min(round(zoom * 0.1 + 9.5), 18)\<close>.
\<close>

theorem C7_linearProps_bounds:
  assumes "0 \<le> zoom_linear (zoom p)" and "zoom_linear (zoom p) \<le> 100"
  shows "\<exists>lp p'. linearProps p = Some (lp, p')
           \<and> 1 \<le> bpsPerBlock lp
           \<and> seqFontSize lp \<le> 18
           \<and> seqFontSize lp = min (Math_round (zoom_linear (zoom p) * 0.1 + 9.5)) 18"
proof -
  have "min (Math_round (zoom_linear (zoom p) * 0.1 + 9.5)) 18 \<noteq> 0"
    using fontSize_lower [OF assms(1)] by linarith
  then show ?thesis
    by (simp add: linearProps_def Let_def)
qed

theorem C7_linearProps_bounds_witness:
  "0 \<le> zoom_linear (zoom example_props) \<and> zoom_linear (zoom example_props) \<le> 100
   \<and> (\<exists>lp p'. linearProps example_props = Some (lp, p')
          \<and> bpsPerBlock lp = 75 \<and> 1 \<le> bpsPerBlock lp
          \<and> seqFontSize lp = 15 \<and> seqFontSize lp \<le> 18)"
proof -
  have z: "zoom_linear (zoom example_props) = 50"
    by (simp add: example_props_def)
  have lo: "0 \<le> zoom_linear (zoom example_props)" and hi: "zoom_linear (zoom example_props) \<le> 100"
    by (simp_all add: z)
  from C7_linearProps_bounds [OF lo hi] obtain lp p'
    where "linearProps example_props = Some (lp, p')" and "1 \<le> bpsPerBlock lp"
      and "seqFontSize lp \<le> 18"
    by blast
  moreover from this(1) have "bpsPerBlock lp = 75" and "seqFontSize lp = 15"
    by (auto simp add: linearProps_example)
  ultimately show ?thesis
    using lo hi by blast
qed

text \<open>
  C8, as amended. The claim gives the steps without the roundings of the source: for an
  amino-acid sequence at zoom 5 its words give 112 where the source returns 111 (see the
  counterexample). What holds, in the arithmetic of doubles, for every input whose font
  size is not 0 (as it is for every zoom that is not negative, \<open>seqFontSize_ieee_pos\<close>)
  and whose width is at most \<open>2 ^ 1000\<close> in magnitude, with \<open>w\<close> the width
  (halved under the \<^verbatim>\<open>both\<close> viewers) and \<open>f\<close> the font size: \<^verbatim>\<open>linearProps\<close> returns;
  \<^verbatim>\<open>bpsPerBlock\<close> starts as \<^verbatim>\<open>round((w / f) * 1.4) || 1\<close> (\<open>base\<close>), which is that rounding
  with minimum 1 when the width is not negative and the font size is positive; for an
  amino-acid sequence it is divided by 3 and rounded with \<^verbatim>\<open>Math.round\<close>, before the zoom
  correction (\<open>adjusted\<close>); the zoom correction triples it for a zoom up to 5, doubles it for
  a zoom above 5 and up to 10, and scales it by \<^verbatim>\<open>70 / zoom\<close> and rounds it with
  \<^verbatim>\<open>Math.round\<close> for a zoom above 70 (\<open>scaled\<close>); the result is that with minimum 1. Only
  then is the width reduced by 28, and only when \<^verbatim>\<open>bpsPerBlock\<close> is below the length of the
  sequence (and the width is not 0); \<^verbatim>\<open>charWidth\<close> is the width as returned divided by
  \<^verbatim>\<open>bpsPerBlock\<close>. At the example input (dna, length 10000, width 800, zoom 50, viewer
  \<^verbatim>\<open>linear\<close>): \<^verbatim>\<open>seqFontSize\<close> 15, \<^verbatim>\<open>bpsPerBlock\<close> 75, width 772.
\<close>

theorem C8_linearProps_tiling:
  fixes p :: SeqViewerContainerProps
  defines "z \<equiv> zoom_linear (zoom p)"
    and "w \<equiv> (if includes_both (viewer p) then double (width (size_of p) / 2)
               else width (size_of p))"
  defines "f \<equiv> min (Math_round (double (double (z * double 0.1) + 9.5))) 18"
  defines "base \<equiv> js_or (Math_round (double (double (w / f) * double 1.4))) 1"
  defines "adjusted \<equiv> (if seqType p = aa then Math_round (double (base / 3)) else base)"
  defines "scaled \<equiv> (if z \<le> 5 then double (adjusted * 3)
                      else if z \<le> 10 then double (adjusted * 2)
                      else if 70 < z then Math_round (double (adjusted * double (70 / z)))
                      else adjusted)"
  assumes nz: "f \<noteq> 0" and range: "\<bar>width (size_of p)\<bar> \<le> 2 ^ 1000"
  shows "\<exists>lp p'. linearProps_ieee p = Some (lp, p')
           \<and> seqFontSize lp = f
           \<and> (0 \<le> w \<and> 0 < f
                \<longrightarrow> base = max 1 (Math_round (double (double (w / f) * double 1.4))))
           \<and> bpsPerBlock lp = max 1 scaled
           \<and> width (linear_size lp)
               = (if w \<noteq> 0 \<and> bpsPerBlock lp < real (length (seq p))
                  then double (w - 28) else w)
           \<and> (width (linear_size lp) \<noteq> w \<longrightarrow> bpsPerBlock lp < real (length (seq p)))
           \<and> charWidth lp = double (width (linear_size lp) / bpsPerBlock lp)"
proof -
  define w' where
    "w' = (if w \<noteq> 0 \<and> max 1 scaled < real (length (seq p)) then double (w - 28) else w)"
  have eq: "linearProps_ieee p
         = Some (\<lparr>bpsPerBlock = max 1 scaled, charWidth = double (w' / max 1 scaled),
                   elementHeight = 16, lineHeight = double (double 1.4 * f), seqFontSize = f,
                   linear_size = (size_of p)\<lparr>width := w'\<rparr>, linear_zoom = z\<rparr>,
                 write_size ((size_of p)\<lparr>width := w'\<rparr>) p)"
  proof (rule linearProps_ieee_eq [where base = base and adjusted = adjusted and scaled = scaled])
    show "z = zoom_linear (zoom p)"
      unfolding z_def ..
    show "w = (if includes_both (viewer p) then double (width (size_of p) / 2)
               else width (size_of p))"
      unfolding w_def ..
    show "f = min (Math_round (double (double (z * double 0.1) + 9.5))) 18"
      unfolding f_def ..
    show "base = js_or (Math_round (double (double (w / f) * double 1.4))) 1"
      unfolding base_def ..
    show "adjusted = (if seqType p = aa then Math_round (double (base / 3)) else base)"
      unfolding adjusted_def ..
    show "scaled = (if z \<le> 5 then double (adjusted * 3)
                    else if z \<le> 10 then double (adjusted * 2)
                    else if 70 < z then Math_round (double (adjusted * double (70 / z)))
                    else adjusted)"
      unfolding scaled_def ..
    show "max 1 scaled = max 1 scaled" ..
    show "w' = (if w \<noteq> 0 \<and> max 1 scaled < real (length (seq p)) then double (w - 28) else w)"
      unfolding w'_def ..
    show "f \<noteq> 0"
      by (rule nz)
    show "\<bar>width (size_of p)\<bar> \<le> 2 ^ 1000"
      by (rule range)
  qed
  have base: "base = max 1 (Math_round (double (double (w / f) * double 1.4)))"
    if "0 \<le> w" and "0 < f"
  proof -
    have "0 \<le> double (w / f)"
      using that by (intro double_nonneg) simp
    moreover have "0 \<le> double 1.4"
      by (intro double_nonneg) simp
    ultimately have "0 \<le> double (double (w / f) * double 1.4)"
      by (intro double_nonneg) simp
    then show ?thesis
      unfolding base_def by (rule js_or_round_nonneg)
  qed
  have w'w: "w' \<noteq> w \<longrightarrow> max 1 scaled < real (length (seq p))"
    by (simp add: w'_def)
  show ?thesis
    unfolding eq using base w'w by (simp add: w'_def)
qed

theorem C8_linearProps_tiling_witness:
  "min (Math_round (double (double (zoom_linear (zoom example_props) * double 0.1) + 9.5))) 18 = 15
   \<and> \<bar>width (size_of example_props)\<bar> \<le> 2 ^ 1000
   \<and> length (seq example_props) = 10000
   \<and> (\<exists>lp p'. linearProps_ieee example_props = Some (lp, p')
          \<and> seqFontSize lp = 15
          \<and> bpsPerBlock lp = 75
          \<and> width (linear_size lp) = 772
          \<and> bpsPerBlock lp < real (length (seq example_props))
          \<and> charWidth lp = double (width (linear_size lp) / bpsPerBlock lp))"
proof -
  have nz: "min (Math_round (double (double (zoom_linear (zoom example_props) * double 0.1)
              + 9.5))) 18 \<noteq> 0"
    unfolding seqFontSize_ieee_example by simp
  have range: "\<bar>width (size_of example_props)\<bar> \<le> 2 ^ 1000"
    by (simp add: example_props_def size_of_def)
  have len: "length (seq example_props) = 10000"
    by (simp add: example_props_def)
  from C8_linearProps_tiling [OF nz range] obtain lp p'
    where lp: "linearProps_ieee example_props = Some (lp, p')"
      and cw: "charWidth lp = double (width (linear_size lp) / bpsPerBlock lp)"
    by blast
  from lp have "seqFontSize lp = 15" and "bpsPerBlock lp = 75" and "width (linear_size lp) = 772"
    by (auto simp add: linearProps_ieee_example)
  with lp cw len
  have "\<exists>lp p'. linearProps_ieee example_props = Some (lp, p')
          \<and> seqFontSize lp = 15
          \<and> bpsPerBlock lp = 75
          \<and> width (linear_size lp) = 772
          \<and> bpsPerBlock lp < real (length (seq example_props))
          \<and> charWidth lp = double (width (linear_size lp) / bpsPerBlock lp)"
    by auto
  with seqFontSize_ieee_example range len show ?thesis
    by blast
qed

text \<open>
  An amino-acid sequence of length 10000, width 800, zoom 5: the source returns
  \<^verbatim>\<open>bpsPerBlock\<close> 111 (the base 112 divided by 3 and rounded is 37, tripled 111), in the
  arithmetic of doubles and in exact arithmetic alike; the steps as the claim words them
  give 112.
\<close>

theorem C8_roundings_counterexample:
  "linearProps_ieee (example_props\<lparr>seqType := aa, zoom := \<lparr>zoom_circular = 50, zoom_linear = 5\<rparr>\<rparr>)
     = Some (\<lparr>bpsPerBlock = 111, charWidth = 7830583135878430 / 2 ^ 50, elementHeight = 16,
              lineHeight = 14, seqFontSize = 10,
              linear_size = \<lparr>height = 400, width = 772\<rparr>, linear_zoom = 5\<rparr>,
             example_props\<lparr>seqType := aa, zoom := \<lparr>zoom_circular = 50, zoom_linear = 5\<rparr>\<rparr>)
   \<and> linearProps (example_props\<lparr>seqType := aa, zoom := \<lparr>zoom_circular = 50, zoom_linear = 5\<rparr>\<rparr>)
     = Some (\<lparr>bpsPerBlock = 111, charWidth = 772 / 111, elementHeight = 16, lineHeight = 14,
              seqFontSize = 10, linear_size = \<lparr>height = 400, width = 772\<rparr>,
              linear_zoom = 5\<rparr>,
             example_props\<lparr>seqType := aa, zoom := \<lparr>zoom_circular = 50, zoom_linear = 5\<rparr>\<rparr>)
   \<and> claimed_bpsPerBlock
         (example_props\<lparr>seqType := aa, zoom := \<lparr>zoom_circular = 50, zoom_linear = 5\<rparr>\<rparr>) = 112
   \<and> claimed_bpsPerBlock
         (example_props\<lparr>seqType := aa, zoom := \<lparr>zoom_circular = 50, zoom_linear = 5\<rparr>\<rparr>) \<noteq> 111"
  using linearProps_ieee_example_aa linearProps_example_aa claimed_bpsPerBlock_example_aa
  by simp

text \<open>
  C3 (the source departs from it). The claim: both calculators are pure, two runs on the
  same inputs agree and the inputs are left unchanged, also under the \<^verbatim>\<open>both\<close> viewers
  and with a \<^verbatim>\<open>testSize\<close>. With a \<^verbatim>\<open>testSize\<close> the source writes the new width into that
  very prop: \<^verbatim>\<open>linearProps\<close> on a \<^verbatim>\<open>testSize\<close> 800 wide returns \<^verbatim>\<open>bpsPerBlock\<close> 75 and
  leaves the \<^verbatim>\<open>testSize\<close> 772 wide, and run again returns \<^verbatim>\<open>bpsPerBlock\<close> 72 and leaves it
  744 wide; \<^verbatim>\<open>circularProps\<close> under \<^verbatim>\<open>both\<close> halves the \<^verbatim>\<open>testSize\<close> at each run, the
  radius going from 136 to 68.
\<close>

theorem C3_testSize_is_overwritten:
  "linearProps (example_props\<lparr>testSize := Some \<lparr>height = 400, width = 800\<rparr>\<rparr>)
     = Some (\<lparr>bpsPerBlock = 75, charWidth = 772 / 75, elementHeight = 16, lineHeight = 21,
              seqFontSize = 15, linear_size = \<lparr>height = 400, width = 772\<rparr>,
              linear_zoom = 50\<rparr>,
             example_props\<lparr>testSize := Some \<lparr>height = 400, width = 772\<rparr>\<rparr>)
   \<and> linearProps (example_props\<lparr>testSize := Some \<lparr>height = 400, width = 772\<rparr>\<rparr>)
     = Some (\<lparr>bpsPerBlock = 72, charWidth = 744 / 72, elementHeight = 16, lineHeight = 21,
              seqFontSize = 15, linear_size = \<lparr>height = 400, width = 744\<rparr>,
              linear_zoom = 50\<rparr>,
             example_props\<lparr>testSize := Some \<lparr>height = 400, width = 744\<rparr>\<rparr>)
   \<and> circularProps (example_props\<lparr>viewer := Both, testSize := Some \<lparr>height = 400, width = 800\<rparr>\<rparr>)
     = (\<lparr>bpsOnArc = 10000 * exp (ln (50 / 10000) / - (100 powr 0.83)),
         center_x = 200, center_y = 200, radius = 136,
         circular_size = \<lparr>height = 400, width = 400\<rparr>, yDiff = 0, circular_zoom = 50\<rparr>,
        example_props\<lparr>viewer := Both, testSize := Some \<lparr>height = 400, width = 400\<rparr>\<rparr>)
   \<and> circularProps (example_props\<lparr>viewer := Both, testSize := Some \<lparr>height = 400, width = 400\<rparr>\<rparr>)
     = (\<lparr>bpsOnArc = 10000 * exp (ln (50 / 10000) / - (100 powr 0.83)),
         center_x = 100, center_y = 200, radius = 68,
         circular_size = \<lparr>height = 400, width = 200\<rparr>, yDiff = 0, circular_zoom = 50\<rparr>,
        example_props\<lparr>viewer := Both, testSize := Some \<lparr>height = 400, width = 200\<rparr>\<rparr>)"
  by (simp add: linearProps_def circularProps_def example_props_def size_of_def write_size_def
        Math_round_def js_or_def Let_def)

subsection \<open>Circular layout\<close>

text \<open>
  C6, as amended. The claim, that the radius is at least 1 for every viewport size, fails
  where the smaller dimension is positive and below 1 / 0.34 (see the counterexample: a
  viewport of 1 by 1 gives 0.34). What holds: the radius is never 0, and it is positive for
  a viewport whose height and width are not negative; it is \<^verbatim>\<open>limitingDim * 0.34\<close>, with
  \<^verbatim>\<open>limitingDim = min(height, width)\<close> (the width halved under the \<^verbatim>\<open>both\<close> viewers), but 1
  when that product is 0. It is at least 1 exactly when the product is 0 or at least 1.
\<close>

theorem C6_circularProps_radius_positive:
  fixes p :: SeqViewerContainerProps
  defines "limitingDim \<equiv>
     min (height (size_of p))
         (if includes_both (viewer p) then width (size_of p) / 2 else width (size_of p))"
  shows "radius (fst (circularProps p)) \<noteq> 0
       \<and> (0 \<le> height (size_of p) \<and> 0 \<le> width (size_of p)
            \<longrightarrow> 0 < radius (fst (circularProps p)))
       \<and> radius (fst (circularProps p))
           = (if limitingDim * 0.34 = 0 then 1 else limitingDim * 0.34)
       \<and> (1 \<le> radius (fst (circularProps p))
            \<longleftrightarrow> limitingDim * 0.34 = 0 \<or> 1 \<le> limitingDim * 0.34)"
proof -
  have r: "radius (fst (circularProps p))
           = (if limitingDim * 0.34 = 0 then 1 else limitingDim * 0.34)"
    by (simp add: circularProps_def Let_def limitingDim_def)
  have "0 \<le> limitingDim" if "0 \<le> height (size_of p)" and "0 \<le> width (size_of p)"
    using that by (simp add: limitingDim_def)
  then show ?thesis
    unfolding r by auto
qed

theorem C6_circularProps_radius_positive_witness:
  "0 \<le> height (size_of (example_props\<lparr>props_height := 0, props_width := 0\<rparr>))
   \<and> 0 \<le> width (size_of (example_props\<lparr>props_height := 0, props_width := 0\<rparr>))
   \<and> radius (fst (circularProps (example_props\<lparr>props_height := 0, props_width := 0\<rparr>))) = 1
   \<and> 0 < radius (fst (circularProps (example_props\<lparr>props_height := 0, props_width := 0\<rparr>)))
   \<and> 0 \<le> height (size_of (example_props\<lparr>props_height := 1, props_width := 1\<rparr>))
   \<and> 0 \<le> width (size_of (example_props\<lparr>props_height := 1, props_width := 1\<rparr>))
   \<and> radius (fst (circularProps (example_props\<lparr>props_height := 1, props_width := 1\<rparr>))) = 0.34"
  using C6_circularProps_radius_positive [of "example_props\<lparr>props_height := 0, props_width := 0\<rparr>"]
        C6_circularProps_radius_positive [of "example_props\<lparr>props_height := 1, props_width := 1\<rparr>"]
  by (simp add: example_props_def size_of_def)

theorem C6_radius_below_1_counterexample:
  "1 \<le> length (seq (example_props\<lparr>seq := ''A'', props_height := 1, props_width := 1\<rparr>))
   \<and> radius (fst (circularProps
         (example_props\<lparr>seq := ''A'', props_height := 1, props_width := 1\<rparr>))) = 0.34
   \<and> \<not> 1 \<le> radius (fst (circularProps
         (example_props\<lparr>seq := ''A'', props_height := 1, props_width := 1\<rparr>)))"
  by (simp add: circularProps_small)

text \<open>
  C9, as amended. The claim gives the radius as \<^verbatim>\<open>min(height, width) * 0.34\<close> for every
  viewport size; that fails for a viewport of 0 by 0, where the radius is 1, and under the
  \<^verbatim>\<open>both\<close> viewers, where the width is halved first (see the counterexample). What holds:
  for a sequence of length at least 1, \<^verbatim>\<open>circularProps\<close> returns
  \<^verbatim>\<open>bpsOnArc = seqLength * beta\<close> with \<^verbatim>\<open>beta = exp(ln(50 / seqLength) / -(100 ** 0.83))\<close>,
  and the radius \<^verbatim>\<open>limitingDim * 0.34\<close>, with \<^verbatim>\<open>limitingDim\<close> the smaller of the height and
  the width (the width halved under the \<^verbatim>\<open>both\<close> viewers), but 1 when that product is 0;
  the radius, \<^verbatim>\<open>bpsOnArc\<close> and the center are the same for any two values of
  \<^verbatim>\<open>zoom.circular\<close>. For a sequence of length 4361 in a viewport of 600 by 400 under the
  viewer \<^verbatim>\<open>linear\<close> the radius is 136.
\<close>

theorem C9_circularProps_arc_radius:
  assumes "1 \<le> length (seq p)"
  defines "seqLength \<equiv> real (length (seq p))"
    and "limitingDim \<equiv>
     min (height (size_of p))
         (if includes_both (viewer p) then width (size_of p) / 2 else width (size_of p))"
  shows "bpsOnArc (fst (circularProps p))
           = seqLength * exp (ln (50 / seqLength) / - (100 powr 0.83))
       \<and> radius (fst (circularProps p))
           = (if limitingDim * 0.34 = 0 then 1 else limitingDim * 0.34)
       \<and> (limitingDim \<noteq> 0 \<longrightarrow> radius (fst (circularProps p)) = limitingDim * 0.34)
       \<and> radius (fst (circularProps (p\<lparr>zoom := (zoom p)\<lparr>zoom_circular := z1\<rparr>\<rparr>)))
           = radius (fst (circularProps (p\<lparr>zoom := (zoom p)\<lparr>zoom_circular := z2\<rparr>\<rparr>)))
       \<and> bpsOnArc (fst (circularProps (p\<lparr>zoom := (zoom p)\<lparr>zoom_circular := z1\<rparr>\<rparr>)))
           = bpsOnArc (fst (circularProps (p\<lparr>zoom := (zoom p)\<lparr>zoom_circular := z2\<rparr>\<rparr>)))
       \<and> center_x (fst (circularProps (p\<lparr>zoom := (zoom p)\<lparr>zoom_circular := z1\<rparr>\<rparr>)))
           = center_x (fst (circularProps (p\<lparr>zoom := (zoom p)\<lparr>zoom_circular := z2\<rparr>\<rparr>)))
       \<and> center_y (fst (circularProps (p\<lparr>zoom := (zoom p)\<lparr>zoom_circular := z1\<rparr>\<rparr>)))
           = center_y (fst (circularProps (p\<lparr>zoom := (zoom p)\<lparr>zoom_circular := z2\<rparr>\<rparr>)))"
proof -
  have "seqLength \<noteq> 0"
    using assms(1) by (auto simp add: seqLength_def)
  then have "bpsOnArc (fst (circularProps p))
           = seqLength * exp (ln (50 / seqLength) / - (100 powr 0.83))"
    by (simp add: circularProps_def Let_def seqLength_def)
  moreover have "radius (fst (circularProps p))
           = (if limitingDim * 0.34 = 0 then 1 else limitingDim * 0.34)"
    by (simp add: circularProps_def Let_def limitingDim_def)
  moreover from this
  have "limitingDim \<noteq> 0 \<longrightarrow> radius (fst (circularProps p)) = limitingDim * 0.34"
    by simp
  moreover have "radius (fst (circularProps (p\<lparr>zoom := (zoom p)\<lparr>zoom_circular := z1\<rparr>\<rparr>)))
           = radius (fst (circularProps (p\<lparr>zoom := (zoom p)\<lparr>zoom_circular := z2\<rparr>\<rparr>)))"
    by (simp add: circularProps_def Let_def size_of_zoom)
  moreover have "bpsOnArc (fst (circularProps (p\<lparr>zoom := (zoom p)\<lparr>zoom_circular := z1\<rparr>\<rparr>)))
           = bpsOnArc (fst (circularProps (p\<lparr>zoom := (zoom p)\<lparr>zoom_circular := z2\<rparr>\<rparr>)))"
    by (simp add: circularProps_def Let_def size_of_zoom)
  moreover have "center_x (fst (circularProps (p\<lparr>zoom := (zoom p)\<lparr>zoom_circular := z1\<rparr>\<rparr>)))
           = center_x (fst (circularProps (p\<lparr>zoom := (zoom p)\<lparr>zoom_circular := z2\<rparr>\<rparr>)))"
    by (simp add: circularProps_def Let_def size_of_zoom)
  moreover have "center_y (fst (circularProps (p\<lparr>zoom := (zoom p)\<lparr>zoom_circular := z1\<rparr>\<rparr>)))
           = center_y (fst (circularProps (p\<lparr>zoom := (zoom p)\<lparr>zoom_circular := z2\<rparr>\<rparr>)))"
    by (simp add: circularProps_def Let_def size_of_zoom)
  ultimately show ?thesis
    by blast
qed

theorem C9_circularProps_arc_radius_witness:
  "1 \<le> length (seq (example_props\<lparr>seq := replicate 4361 (CHR ''A''), props_width := 600\<rparr>))
   \<and> size_of (example_props\<lparr>seq := replicate 4361 (CHR ''A''), props_width := 600\<rparr>)
       = \<lparr>height = 400, width = 600\<rparr>
   \<and> radius (fst (circularProps
        (example_props\<lparr>seq := replicate 4361 (CHR ''A''), props_width := 600\<rparr>))) = 136
   \<and> bpsOnArc (fst (circularProps
        (example_props\<lparr>seq := replicate 4361 (CHR ''A''), props_width := 600\<rparr>)))
       = 4361 * exp (ln (50 / 4361) / - (100 powr 0.83))"
proof -
  let ?p = "example_props\<lparr>seq := replicate 4361 (CHR ''A''), props_width := 600\<rparr>"
  have len: "1 \<le> length (seq ?p)"
    by simp
  have size: "size_of ?p = \<lparr>height = 400, width = 600\<rparr>" and "viewer ?p = Linear"
    by (simp_all add: example_props_def size_of_def)
  with C9_circularProps_arc_radius [OF len] show ?thesis
    by simp
qed

text \<open>
  A viewport of 0 by 0: the radius is 1, not \<^verbatim>\<open>min(0, 0) * 0.34\<close>. A viewport of 600 by 400
  under the viewer \<^verbatim>\<open>both\<close>: the radius is 102, not \<^verbatim>\<open>min(400, 600) * 0.34 = 136\<close>.
\<close>

theorem C9_radius_formula_counterexample:
  "1 \<le> length (seq (example_props\<lparr>props_height := 0, props_width := 0\<rparr>))
   \<and> radius (fst (circularProps (example_props\<lparr>props_height := 0, props_width := 0\<rparr>))) = 1
   \<and> min (props_height (example_props\<lparr>props_height := 0, props_width := 0\<rparr>))
          (props_width (example_props\<lparr>props_height := 0, props_width := 0\<rparr>)) * 0.34 = 0
   \<and> radius (fst (circularProps (example_props\<lparr>props_height := 0, props_width := 0\<rparr>)))
       \<noteq> min (props_height (example_props\<lparr>props_height := 0, props_width := 0\<rparr>))
              (props_width (example_props\<lparr>props_height := 0, props_width := 0\<rparr>)) * 0.34
   \<and> radius (fst (circularProps (example_props\<lparr>viewer := Both, props_width := 600\<rparr>))) = 102
   \<and> min (props_height (example_props\<lparr>viewer := Both, props_width := 600\<rparr>))
          (props_width (example_props\<lparr>viewer := Both, props_width := 600\<rparr>)) * 0.34 = 136"
  by (simp add: circularProps_def example_props_def size_of_def Let_def)

end
